theory Spec2Isabelle
  imports Main "HOL-Library.Word"
begin

section \<open>The video generation workflow of \<^verbatim>\<open>src/app/page.tsx\<close>\<close>

text \<open>
  The page component \<^verbatim>\<open>VideoGenerator\<close> holds three pieces of React state (the
  prompt, the workflow status record and the log list) and drives them from three
  handlers: \<^verbatim>\<open>generateVideo\<close>, \<^verbatim>\<open>pollVideoStatus\<close> and \<^verbatim>\<open>resetGenerator\<close>.
  The handlers are embedded below as functions on an explicit state, the two
  \<^verbatim>\<open>fetch\<close> calls read their answers from parameters, and every \<^verbatim>\<open>throw\<close> is a
  branch that runs the matching \<^verbatim>\<open>catch\<close> block.
\<close>

subsection \<open>JavaScript strings and truthiness\<close>

text \<open>
  The prompt is a JavaScript string: a sequence of UTF-16 code units, which is what
  \<^verbatim>\<open>prompt.length\<close> counts and what \<^verbatim>\<open>prompt.trim()\<close> inspects. Identifiers, URLs
  and messages are only copied and compared, and are kept as \<^typ>\<open>string\<close>.
\<close>

type_synonym jsstring = "16 word list"

text \<open>ECMAScript \<^verbatim>\<open>WhiteSpace\<close> and \<^verbatim>\<open>LineTerminator\<close> code units, which \<^verbatim>\<open>trim\<close> strips.\<close>

definition isWhiteSpace :: "16 word \<Rightarrow> bool" where
  "isWhiteSpace c \<longleftrightarrow>
     c \<in> {0x0009, 0x000A, 0x000B, 0x000C, 0x000D, 0x0020, 0x00A0, 0x1680,
          0x2028, 0x2029, 0x202F, 0x205F, 0x3000, 0xFEFF}
     \<or> (0x2000 \<le> c \<and> c \<le> 0x200A)"

definition trim :: "jsstring \<Rightarrow> jsstring" where
  "trim s = rev (dropWhile isWhiteSpace (rev (dropWhile isWhiteSpace s)))"

text \<open>
  An optional string field of a JSON answer is \<open>None\<close> when the property is
  \<^verbatim>\<open>undefined\<close>. Such a value is truthy when it is a non-empty string, and
  \<^verbatim>\<open>a || b\<close> yields \<open>a\<close> when \<open>a\<close> is truthy and \<open>b\<close> otherwise.
\<close>

fun truthy :: "string option \<Rightarrow> bool" where
  "truthy None = False"
| "truthy (Some s) = (s \<noteq> [])"

definition js_or :: "string option \<Rightarrow> string option \<Rightarrow> string option" where
  "js_or a b = (if truthy a then a else b)"

definition or_else :: "string option \<Rightarrow> string \<Rightarrow> string" where
  "or_else a d = (case a of None \<Rightarrow> d | Some s \<Rightarrow> if s = [] then d else s)"

text \<open>Decimal rendering of a number inside a template literal.\<close>

definition digit :: "nat \<Rightarrow> char" where
  "digit d = char_of (48 + d)"

fun show_nat :: "nat \<Rightarrow> string" where
  "show_nat n = (if n < 10 then [digit n] else show_nat (n div 10) @ [digit (n mod 10)])"

declare show_nat.simps [simp del]

subsection \<open>Data model\<close>

datatype severity = Info | Success | Error | Warning

text \<open>
  A \<^verbatim>\<open>LogEntry\<close>. Its \<^verbatim>\<open>id\<close> and \<^verbatim>\<open>timestamp\<close> fields are read from the wall clock
  (\<^verbatim>\<open>Date.now()\<close>, \<^verbatim>\<open>toLocaleTimeString()\<close>), are never read back by the workflow and
  are left out; \<open>log_type\<close> is the field \<^verbatim>\<open>type\<close>.
\<close>

record LogEntry =
  log_type :: severity
  message :: string

datatype phase = Idle | Generating | Processing | Completed | Failed

text \<open>The interface \<^verbatim>\<open>VideoStatus\<close>; an optional field that is not set is \<open>None\<close>.\<close>

record VideoStatus =
  status :: phase
  videoId :: "string option"
  videoUrl :: "string option"
  progress :: int
  error :: "string option"

subsection \<open>Answers of the two proxy routes\<close>

text \<open>
  A value caught by a \<^verbatim>\<open>catch\<close> block is either an \<^verbatim>\<open>Error\<close> object with its
  message or some other value; the handlers tell them apart with \<^verbatim>\<open>instanceof\<close>.
\<close>

datatype thrown = ErrorObj string | NonError

text \<open>
  \<^verbatim>\<open>await fetch(...)\<close> followed by \<^verbatim>\<open>await res.json()\<close> either throws (the transport
  failed, the body is not JSON; reading a property of a \<^verbatim>\<open>null\<close> body throws in the
  same \<^verbatim>\<open>try\<close> block) or yields the response with its parsed body.
\<close>

datatype 'a reply = Threw thrown | Reply 'a

text \<open>
  What \<^verbatim>\<open>generateVideo\<close> reads of the answer of \<^verbatim>\<open>POST /api/generate\<close>:
  \<^verbatim>\<open>genRes.ok\<close>, \<^verbatim>\<open>genData.data?.video_id\<close> and \<^verbatim>\<open>genData.error?.message\<close>.
\<close>

record gen_response =
  gen_ok :: bool
  video_id :: "string option"
  gen_error_message :: "string option"

text \<open>
  What \<^verbatim>\<open>pollVideoStatus\<close> reads of the answer of \<^verbatim>\<open>GET /api/status/<id>\<close>:
  \<^verbatim>\<open>statusRes.ok\<close>, \<^verbatim>\<open>statusData.error?.message\<close>, \<^verbatim>\<open>statusData.data?.status\<close>,
  \<^verbatim>\<open>statusData.data?.video_url\<close>, \<^verbatim>\<open>statusData.data?.output?.video_url\<close> and
  \<^verbatim>\<open>statusData.data?.error?.message\<close>. The fields are strings when they are present,
  which is the shape the two routes and the remote service document.
\<close>

record status_response =
  ok :: bool
  error_message :: "string option"
  data_status :: "string option"
  video_url :: "string option"
  output_video_url :: "string option"
  data_error_message :: "string option"

subsection \<open>Component state\<close>

text \<open>
  The three \<^verbatim>\<open>useState\<close> cells, followed by an observation of the effects the
  handlers perform: every value stored by \<^verbatim>\<open>setVideoStatus\<close> in order
  (\<open>history\<close>), the percentages passed to the progress updater (\<open>progressCalls\<close>),
  the prompt texts posted to \<^verbatim>\<open>/api/generate\<close> (\<open>generateCalls\<close>), the number of
  requests sent to \<^verbatim>\<open>/api/status\<close> (\<open>statusCalls\<close>) and the milliseconds spent in
  \<^verbatim>\<open>setTimeout\<close> (\<open>waited\<close>). The observation fields are never read by a handler,
  except that the answer to a status request is the next one of the remote sequence.
\<close>

record world =
  prompt :: jsstring
  videoStatus :: VideoStatus
  logs :: "LogEntry list"
  history :: "VideoStatus list"
  progressCalls :: "int list"
  generateCalls :: "jsstring list"
  statusCalls :: nat
  waited :: nat

text \<open>The code units of a text of ASCII characters.\<close>

definition utf16 :: "string \<Rightarrow> jsstring" where
  "utf16 s = map (\<lambda>c. of_nat (of_char c)) s"

text \<open>The initial values of the \<^verbatim>\<open>useState\<close> cells.\<close>

definition defaultPrompt :: jsstring where
  "defaultPrompt = utf16 ''Create an engaging introduction video for my business!''"

definition idleStatus :: VideoStatus where
  "idleStatus = \<lparr>status = Idle, videoId = None, videoUrl = None, progress = 0, error = None\<rparr>"

definition initial :: world where
  "initial = \<lparr>prompt = defaultPrompt, videoStatus = idleStatus, logs = [], history = [],
     progressCalls = [], generateCalls = [], statusCalls = 0, waited = 0\<rparr>"

text \<open>The \<^verbatim>\<open>onChange\<close> handler of the text area: \<^verbatim>\<open>setPrompt(e.target.value)\<close>.\<close>

definition setPrompt :: "jsstring \<Rightarrow> world \<Rightarrow> world" where
  "setPrompt p w = w\<lparr>prompt := p\<rparr>"

text \<open>\<^verbatim>\<open>addLog\<close>: \<^verbatim>\<open>setLogs((prev) => [newLog, ...prev])\<close>.\<close>

definition addLog :: "severity \<Rightarrow> string \<Rightarrow> world \<Rightarrow> world" where
  "addLog t m w = w\<lparr>logs := \<lparr>log_type = t, message = m\<rparr> # logs w\<rparr>"

text \<open>\<^verbatim>\<open>setVideoStatus(value)\<close>: the whole record is replaced.\<close>

definition setVideoStatus :: "VideoStatus \<Rightarrow> world \<Rightarrow> world" where
  "setVideoStatus v w = w\<lparr>videoStatus := v, history := history w @ [v]\<rparr>"

text \<open>\<^verbatim>\<open>setVideoStatus((prev) => ({ ...prev, progress }))\<close>: only the progress changes.\<close>

definition setProgress :: "int \<Rightarrow> world \<Rightarrow> world" where
  "setProgress p w =
     (let v = (videoStatus w)\<lparr>progress := p\<rparr>
      in w\<lparr>videoStatus := v, history := history w @ [v],
           progressCalls := progressCalls w @ [p]\<rparr>)"

text \<open>\<^verbatim>\<open>await new Promise((resolve) => setTimeout(resolve, ms))\<close>.\<close>

definition sleep :: "nat \<Rightarrow> world \<Rightarrow> world" where
  "sleep ms w = w\<lparr>waited := waited w + ms\<rparr>"

subsection \<open>\<^verbatim>\<open>resetGenerator\<close>\<close>

text \<open>
  \<^verbatim>\<open>setVideoStatus({ status: "idle", progress: 0 }); setLogs([])\<close>. Clearing the
  \<^verbatim>\<open>src\<close> of the video element touches no workflow state.
\<close>

definition resetGenerator :: "world \<Rightarrow> world" where
  "resetGenerator w = (setVideoStatus idleStatus w)\<lparr>logs := []\<rparr>"

subsection \<open>\<^verbatim>\<open>pollVideoStatus\<close>\<close>

definition maxAttempts :: nat where
  "maxAttempts = 100"

text \<open>The \<^verbatim>\<open>catch\<close> block of the loop body; it ends with \<^verbatim>\<open>return\<close>.\<close>

definition pollCatch :: "thrown \<Rightarrow> world \<Rightarrow> world" where
  "pollCatch e w =
     (let errorMessage = (case e of ErrorObj m \<Rightarrow> m | NonError \<Rightarrow> ''Status check failed'')
      in addLog Error errorMessage
           (setVideoStatus \<lparr>status = Failed, videoId = None, videoUrl = None,
              progress = 0, error = Some errorMessage\<rparr> w))"

text \<open>The statements after the loop, reached when the attempts are used up.\<close>

definition pollTimeout :: "world \<Rightarrow> world" where
  "pollTimeout w =
     addLog Error ''Video generation timed out after maximum attempts''
       (setVideoStatus \<lparr>status = Failed, videoId = None, videoUrl = None,
          progress = 0, error = Some ''Video generation timed out''\<rparr> w)"

text \<open>
  The \<^verbatim>\<open>while (attempts < maxAttempts)\<close> loop, from a given value of \<^verbatim>\<open>attempts\<close>.
  \<open>net k\<close> is the answer of the remote side to the \<open>k\<close>-th status request that the
  page sends (counted from 0).
\<close>

function pollLoop :: "(nat \<Rightarrow> status_response reply) \<Rightarrow> string \<Rightarrow> nat \<Rightarrow> world \<Rightarrow> world" where
  "pollLoop net vid attempts w =
     (if attempts < maxAttempts then
        (let w1 = addLog Info (''Checking video status... (Attempt '' @ show_nat (attempts + 1)
                     @ ''/'' @ show_nat maxAttempts @ '')'') w;
             answer = net (statusCalls w1);
             w2 = w1\<lparr>statusCalls := statusCalls w1 + 1\<rparr>
         in case answer of
              Threw e \<Rightarrow> pollCatch e w2
            | Reply statusRes \<Rightarrow>
                if \<not> ok statusRes then
                  pollCatch (ErrorObj (or_else (error_message statusRes) ''Failed to check status'')) w2
                else
                  (let st = data_status statusRes;
                       pr = min (30 + int attempts * 2) 90
                   in if st = Some ''completed'' then
                        (let url = js_or (video_url statusRes) (output_video_url statusRes)
                         in if \<not> truthy url then
                              pollCatch (ErrorObj ''Video URL not found in response'') w2
                            else
                              addLog Success ''Video generation completed successfully!''
                                (setVideoStatus \<lparr>status = Completed, videoId = Some vid,
                                   videoUrl = url, progress = 100, error = None\<rparr> w2))
                      else if st = Some ''failed'' then
                        pollCatch (ErrorObj (or_else (data_error_message statusRes)
                                     ''Video generation failed'')) w2
                      else
                        pollLoop net vid (attempts + 1)
                          (sleep 3000
                            (addLog Info (''Status: '' @ or_else st ''processing'' @ ''...'')
                              (setProgress pr w2)))))
      else pollTimeout w)"
  by pat_completeness auto
termination
  by (relation "measure (\<lambda>(net, vid, attempts, w). maxAttempts - attempts)") auto

declare pollLoop.simps [simp del]

text \<open>\<^verbatim>\<open>pollVideoStatus(videoId)\<close>: \<^verbatim>\<open>let attempts = 0\<close>, then the loop.\<close>

definition pollVideoStatus :: "(nat \<Rightarrow> status_response reply) \<Rightarrow> string \<Rightarrow> world \<Rightarrow> world" where
  "pollVideoStatus net vid w = pollLoop net vid 0 w"

subsection \<open>\<^verbatim>\<open>generateVideo\<close>\<close>

text \<open>The \<^verbatim>\<open>catch\<close> block of \<^verbatim>\<open>generateVideo\<close>.\<close>

definition generateCatch :: "thrown \<Rightarrow> world \<Rightarrow> world" where
  "generateCatch e w =
     (let errorMessage = (case e of ErrorObj m \<Rightarrow> m | NonError \<Rightarrow> ''Unknown error occurred'')
      in addLog Error (''Generation failed: '' @ errorMessage)
           (setVideoStatus \<lparr>status = Failed, videoId = None, videoUrl = None,
              progress = 0, error = Some errorMessage\<rparr> w))"

text \<open>
  \<open>gen\<close> is the answer to the \<^verbatim>\<open>POST /api/generate\<close> request and \<open>net\<close> the sequence of
  answers to the status requests. Of the payload only \<^verbatim>\<open>input_text\<close> varies (it is
  the prompt); the other fields are literals. \<^verbatim>\<open>pollVideoStatus\<close> catches what its
  body throws, so the outer \<^verbatim>\<open>catch\<close> only sees a failed request and the explicit
  \<^verbatim>\<open>throw\<close>. Where the identifier is read, \<open>video_id\<close> has passed the truthiness
  test and is \<open>Some\<close> of a non-empty string.
\<close>

definition generateVideo ::
  "gen_response reply \<Rightarrow> (nat \<Rightarrow> status_response reply) \<Rightarrow> world \<Rightarrow> world" where
  "generateVideo gen net w =
     (if trim (prompt w) = [] then addLog Error ''Please enter a prompt'' w
      else if length (prompt w) > 1500 then
        addLog Error ''Prompt must be less than 1500 characters'' w
      else
        (let w1 = setVideoStatus \<lparr>status = Generating, videoId = None, videoUrl = None,
                    progress = 10, error = None\<rparr> w;
             w2 = addLog Info ''Starting video generation...'' w1;
             w3 = addLog Info ''Sending request to HeyGen API...'' w2;
             w4 = w3\<lparr>generateCalls := generateCalls w3 @ [prompt w3]\<rparr>
         in case gen of
              Threw e \<Rightarrow> generateCatch e w4
            | Reply genRes \<Rightarrow>
                if \<not> gen_ok genRes \<or> \<not> truthy (video_id genRes) then
                  generateCatch (ErrorObj (or_else (gen_error_message genRes)
                                   ''Failed to generate video'')) w4
                else
                  (let vid = the (video_id genRes);
                       w5 = setVideoStatus \<lparr>status = Processing, videoId = Some vid,
                              videoUrl = None, progress = 30, error = None\<rparr> w4;
                       w6 = addLog Success (''Video generation started! ID: '' @ vid) w5
                   in pollVideoStatus net vid w6)))"

subsection \<open>\<^verbatim>\<open>downloadVideo\<close>\<close>

text \<open>
  Only the effects on the workflow state: the handler returns at once without a result
  URL, and otherwise logs the start and then the success or the failure of the download
  (\<open>fetched\<close> tells whether \<^verbatim>\<open>fetch\<close> and \<^verbatim>\<open>blob\<close> went through).
\<close>

definition downloadVideo :: "bool \<Rightarrow> world \<Rightarrow> world" where
  "downloadVideo fetched w =
     (if \<not> truthy (videoUrl (videoStatus w)) then w
      else
        (let w1 = addLog Info ''Starting video download...'' w
         in if fetched then addLog Success ''Video downloaded successfully!'' w1
            else addLog Error ''Failed to download video'' w1))"

section \<open>Notions used to state the properties\<close>

subsection \<open>Blocks of the two handlers\<close>

text \<open>
  An answer that sends the loop into its last \<^verbatim>\<open>else\<close> branch: the request went
  through with a success code and the reported state is neither \<^verbatim>\<open>"completed"\<close> nor
  \<^verbatim>\<open>"failed"\<close> (it may be absent).
\<close>

definition pending :: "status_response reply \<Rightarrow> bool" where
  "pending a = (case a of Threw e \<Rightarrow> False
     | Reply r \<Rightarrow> ok r \<and> data_status r \<noteq> Some ''completed'' \<and> data_status r \<noteq> Some ''failed'')"

text \<open>The state label \<^verbatim>\<open>statusData.data?.status\<close> of an answer.\<close>

fun label :: "status_response reply \<Rightarrow> string option" where
  "label (Threw e) = None"
| "label (Reply r) = data_status r"

text \<open>The state once an iteration has logged its attempt and sent its request.\<close>

definition asked :: "nat \<Rightarrow> world \<Rightarrow> world" where
  "asked attempts w =
     (addLog Info (''Checking video status... (Attempt '' @ show_nat (attempts + 1)
        @ ''/'' @ show_nat maxAttempts @ '')'') w)\<lparr>statusCalls := statusCalls w + 1\<rparr>"

text \<open>A whole iteration that ends in the last \<^verbatim>\<open>else\<close> branch, for the state label \<open>st\<close>.\<close>

definition waitRound :: "string option \<Rightarrow> nat \<Rightarrow> world \<Rightarrow> world" where
  "waitRound st attempts w =
     sleep 3000 (addLog Info (''Status: '' @ or_else st ''processing'' @ ''...'')
       (setProgress (min (30 + int attempts * 2) 90) (asked attempts w)))"

text \<open>\<open>n\<close> such iterations in a row, the first with the counter at \<open>a\<close>.\<close>

fun rounds :: "(nat \<Rightarrow> status_response reply) \<Rightarrow> nat \<Rightarrow> nat \<Rightarrow> world \<Rightarrow> world" where
  "rounds net a 0 w = w"
| "rounds net a (Suc n) w = rounds net (Suc a) n (waitRound (label (net (statusCalls w))) a w)"

text \<open>The two guards at the head of \<^verbatim>\<open>generateVideo\<close>.\<close>

definition rejected :: "jsstring \<Rightarrow> bool" where
  "rejected p \<longleftrightarrow> trim p = [] \<or> 1500 < length p"

text \<open>The state of \<^verbatim>\<open>generateVideo\<close> once the request to \<^verbatim>\<open>/api/generate\<close> is sent.\<close>

definition sending :: "world \<Rightarrow> world" where
  "sending w =
     (addLog Info ''Sending request to HeyGen API...''
       (addLog Info ''Starting video generation...''
         (setVideoStatus \<lparr>status = Generating, videoId = None, videoUrl = None,
            progress = 10, error = None\<rparr> w)))\<lparr>generateCalls := generateCalls w @ [prompt w]\<rparr>"

text \<open>The state in which \<^verbatim>\<open>generateVideo\<close> calls \<^verbatim>\<open>pollVideoStatus(videoId)\<close>.\<close>

definition started :: "string \<Rightarrow> world \<Rightarrow> world" where
  "started vid w =
     addLog Success (''Video generation started! ID: '' @ vid)
       (setVideoStatus \<lparr>status = Processing, videoId = Some vid, videoUrl = None,
          progress = 30, error = None\<rparr> (sending w))"

subsection \<open>Reachable states\<close>

text \<open>
  The states the page can be in between two events: the mounted component, and what the
  handlers make of a reachable state, for every prompt typed and every behaviour of the
  two routes. The states a handler passes through on its way are the entries of
  \<open>history\<close>.
\<close>

inductive reachable :: "world \<Rightarrow> bool" where
  mounted: "reachable initial"
| typed: "reachable w \<Longrightarrow> reachable (setPrompt p w)"
| generated: "reachable w \<Longrightarrow> reachable (generateVideo gen net w)"
| downloaded: "reachable w \<Longrightarrow> reachable (downloadVideo fetched w)"
| cleared: "reachable w \<Longrightarrow> reachable (resetGenerator w)"

subsection \<open>The job handle and the progress along a run\<close>

text \<open>The job handle is present exactly in the processing and completed statuses.\<close>

definition handle_ok :: "VideoStatus \<Rightarrow> bool" where
  "handle_ok v \<longleftrightarrow> (videoId v \<noteq> None) = (status v = Processing \<or> status v = Completed)"

definition all_handles_ok :: "world \<Rightarrow> bool" where
  "all_handles_ok w \<longleftrightarrow> handle_ok (videoStatus w) \<and> list_all handle_ok (history w)"





subsection \<open>Sample answers of the remote side\<close>

definition processingReply :: status_response where
  "processingReply = \<lparr>ok = True, error_message = None, data_status = Some ''processing'',
     video_url = None, output_video_url = None, data_error_message = None\<rparr>"

definition completedReply :: status_response where
  "completedReply = \<lparr>ok = True, error_message = None, data_status = Some ''completed'',
     video_url = Some ''https://files.example/v1.mp4'', output_video_url = None,
     data_error_message = None\<rparr>"

definition nestedUrlReply :: status_response where
  "nestedUrlReply = \<lparr>ok = True, error_message = None, data_status = Some ''completed'',
     video_url = None, output_video_url = Some ''https://files.example/nested.mp4'',
     data_error_message = None\<rparr>"

definition noUrlReply :: status_response where
  "noUrlReply = \<lparr>ok = True, error_message = None, data_status = Some ''completed'',
     video_url = None, output_video_url = None, data_error_message = None\<rparr>"

definition failedReply :: status_response where
  "failedReply = \<lparr>ok = True, error_message = None, data_status = Some ''failed'',
     video_url = None, output_video_url = None,
     data_error_message = Some ''synthesis error''\<rparr>"

definition silentFailedReply :: status_response where
  "silentFailedReply = \<lparr>ok = True, error_message = None, data_status = Some ''failed'',
     video_url = None, output_video_url = None, data_error_message = None\<rparr>"

definition serverErrorReply :: status_response where
  "serverErrorReply = \<lparr>ok = False, error_message = Some ''HeyGen API key not configured'',
     data_status = None, video_url = None, output_video_url = None,
     data_error_message = None\<rparr>"

text \<open>Remote sequences: some rounds of \<^verbatim>\<open>"processing"\<close>, then one and the same answer.\<close>

definition thenAnswer :: "nat \<Rightarrow> status_response reply \<Rightarrow> nat \<Rightarrow> status_response reply" where
  "thenAnswer n a k = (if k < n then Reply processingReply else a)"

definition alwaysProcessing :: "nat \<Rightarrow> status_response reply" where
  "alwaysProcessing k = Reply processingReply"

definition accepted :: "gen_response reply" where
  "accepted = Reply \<lparr>gen_ok = True, video_id = Some ''v1'', gen_error_message = None\<rparr>"

section \<open>The polling loop, one iteration at a time\<close>

lemmas effect_defs = waitRound_def asked_def sleep_def addLog_def setProgress_def
  setVideoStatus_def pollCatch_def pollTimeout_def Let_def

lemmas sample_defs = processingReply_def completedReply_def nestedUrlReply_def noUrlReply_def
  failedReply_def silentFailedReply_def serverErrorReply_def thenAnswer_def
  alwaysProcessing_def accepted_def

lemma pollLoop_exhausted: "\<not> a < maxAttempts \<Longrightarrow> pollLoop net vid a w = pollTimeout w"
  by (simp add: pollLoop.simps)

lemma pollLoop_threw:
  "a < maxAttempts \<Longrightarrow> net (statusCalls w) = Threw e \<Longrightarrow>
   pollLoop net vid a w = pollCatch e (asked a w)"
  by (subst pollLoop.simps) (simp add: asked_def addLog_def Let_def)

lemma pollLoop_not_ok:
  "a < maxAttempts \<Longrightarrow> net (statusCalls w) = Reply r \<Longrightarrow> \<not> ok r \<Longrightarrow>
   pollLoop net vid a w =
     pollCatch (ErrorObj (or_else (error_message r) ''Failed to check status'')) (asked a w)"
  by (subst pollLoop.simps) (simp add: asked_def addLog_def Let_def)

lemma pollLoop_completed:
  "a < maxAttempts \<Longrightarrow> net (statusCalls w) = Reply r \<Longrightarrow> ok r \<Longrightarrow>
   data_status r = Some ''completed'' \<Longrightarrow>
   pollLoop net vid a w =
     (if truthy (js_or (video_url r) (output_video_url r)) then
        addLog Success ''Video generation completed successfully!''
          (setVideoStatus \<lparr>status = Completed, videoId = Some vid,
             videoUrl = js_or (video_url r) (output_video_url r), progress = 100,
             error = None\<rparr> (asked a w))
      else pollCatch (ErrorObj ''Video URL not found in response'') (asked a w))"
  by (subst pollLoop.simps) (simp add: asked_def addLog_def Let_def)

lemma pollLoop_failed:
  "a < maxAttempts \<Longrightarrow> net (statusCalls w) = Reply r \<Longrightarrow> ok r \<Longrightarrow>
   data_status r = Some ''failed'' \<Longrightarrow>
   pollLoop net vid a w =
     pollCatch (ErrorObj (or_else (data_error_message r) ''Video generation failed'')) (asked a w)"
  by (subst pollLoop.simps) (simp add: asked_def addLog_def Let_def)

lemma pollLoop_pending:
  "a < maxAttempts \<Longrightarrow> pending (net (statusCalls w)) \<Longrightarrow>
   pollLoop net vid a w = pollLoop net vid (Suc a) (waitRound (label (net (statusCalls w))) a w)"
  by (subst pollLoop.simps)
     (auto simp add: pending_def asked_def waitRound_def addLog_def Let_def split: reply.splits)

text \<open>An iteration that does not end in the last \<^verbatim>\<open>else\<close> branch is the last one.\<close>

lemma pollLoop_terminal:
  assumes "\<not> (a < maxAttempts \<and> pending (net (statusCalls w)))"
  shows "(\<not> a < maxAttempts \<and> pollLoop net vid a w = pollTimeout w)
    \<or> (a < maxAttempts \<and> (\<exists>e. pollLoop net vid a w = pollCatch e (asked a w)))
    \<or> (a < maxAttempts \<and> (\<exists>u. truthy u \<and> pollLoop net vid a w =
          addLog Success ''Video generation completed successfully!''
            (setVideoStatus \<lparr>status = Completed, videoId = Some vid, videoUrl = u,
               progress = 100, error = None\<rparr> (asked a w))))"
proof (cases "a < maxAttempts")
  case False
  then show ?thesis by (simp add: pollLoop_exhausted)
next
  case True
  with assms have np: "\<not> pending (net (statusCalls w))" by simp
  show ?thesis
  proof (cases "net (statusCalls w)")
    case (Threw e)
    with True have "pollLoop net vid a w = pollCatch e (asked a w)" by (rule pollLoop_threw)
    with True show ?thesis by blast
  next
    case (Reply r)
    show ?thesis
    proof (cases "ok r")
      case False
      with True Reply have "pollLoop net vid a w =
        pollCatch (ErrorObj (or_else (error_message r) ''Failed to check status'')) (asked a w)"
        by (rule pollLoop_not_ok)
      with True show ?thesis by blast
    next
      case ok: True
      with np Reply have "data_status r = Some ''completed'' \<or> data_status r = Some ''failed''"
        by (auto simp: pending_def)
      then show ?thesis
      proof
        assume "data_status r = Some ''completed''"
        with True Reply ok show ?thesis
          by (cases "truthy (js_or (video_url r) (output_video_url r))")
             (auto simp add: pollLoop_completed)
      next
        assume "data_status r = Some ''failed''"
        with True Reply ok have "pollLoop net vid a w =
          pollCatch (ErrorObj (or_else (data_error_message r) ''Video generation failed''))
            (asked a w)"
          by (rule pollLoop_failed)
        with True show ?thesis by blast
      qed
    qed
  qed
qed

text \<open>Induction along the loop: the last iteration, or one more round.\<close>

lemma pollLoop_cases [case_names terminal round]:
  assumes "\<And>a w. \<not> (a < maxAttempts \<and> pending (net (statusCalls w))) \<Longrightarrow> P a w"
    and "\<And>a w. a < maxAttempts \<Longrightarrow> pending (net (statusCalls w)) \<Longrightarrow>
           P (Suc a) (waitRound (label (net (statusCalls w))) a w) \<Longrightarrow> P a w"
  shows "P a w"
proof (induction "maxAttempts - a" arbitrary: a w)
  case (0 a w)
  then have "\<not> a < maxAttempts" by simp
  then show ?case by (intro assms(1)) simp
next
  case (Suc m a w)
  show ?case
  proof (cases "pending (net (statusCalls w))")
    case False
    then show ?thesis by (intro assms(1)) simp
  next
    case True
    from Suc.hyps(2) have a: "a < maxAttempts" and m: "m = maxAttempts - Suc a" by simp_all
    from m have "P (Suc a) (waitRound (label (net (statusCalls w))) a w)" by (rule Suc.hyps(1))
    with a True show ?thesis by (rule assms(2))
  qed
qed

subsection \<open>What the blocks do to the observed fields\<close>

lemma asked_fields [simp]:
  "statusCalls (asked a w) = Suc (statusCalls w)"
  "videoStatus (asked a w) = videoStatus w"
  "progressCalls (asked a w) = progressCalls w"
  "waited (asked a w) = waited w"
  by (simp_all add: asked_def addLog_def)

lemma waitRound_fields [simp]:
  "statusCalls (waitRound st a w) = Suc (statusCalls w)"
  "progressCalls (waitRound st a w) = progressCalls w @ [min (30 + int a * 2) 90]"
  by (simp_all add: effect_defs)

lemma pollCatch_fields [simp]:
  "statusCalls (pollCatch e w) = statusCalls w"
  "progressCalls (pollCatch e w) = progressCalls w"
  "waited (pollCatch e w) = waited w"
  "videoStatus (pollCatch e w) =
     \<lparr>status = Failed, videoId = None, videoUrl = None, progress = 0,
      error = Some (case e of ErrorObj m \<Rightarrow> m | NonError \<Rightarrow> ''Status check failed'')\<rparr>"
  by (simp_all add: effect_defs)

lemma pollTimeout_fields [simp]:
  "statusCalls (pollTimeout w) = statusCalls w"
  "progressCalls (pollTimeout w) = progressCalls w"
  "waited (pollTimeout w) = waited w"
  "videoStatus (pollTimeout w) =
     \<lparr>status = Failed, videoId = None, videoUrl = None, progress = 0,
      error = Some ''Video generation timed out''\<rparr>"
  by (simp_all add: effect_defs)

lemma completed_fields [simp]:
  "statusCalls (addLog t m (setVideoStatus v w)) = statusCalls w"
  "progressCalls (addLog t m (setVideoStatus v w)) = progressCalls w"
  "videoStatus (addLog t m (setVideoStatus v w)) = v"
  by (simp_all add: effect_defs)

subsection \<open>A run of rounds\<close>

lemma pollLoop_rounds:
  "a + n \<le> maxAttempts \<Longrightarrow> \<forall>k<n. pending (net (statusCalls w + k)) \<Longrightarrow>
   pollLoop net vid a w = pollLoop net vid (a + n) (rounds net a n w)"
proof (induction n arbitrary: a w)
  case 0
  then show ?case by simp
next
  case (Suc n)
  from Suc.prems have a: "a < maxAttempts" by simp
  from Suc.prems have p0: "pending (net (statusCalls w))" by fastforce
  let ?w = "waitRound (label (net (statusCalls w))) a w"
  have "\<forall>k<n. pending (net (statusCalls ?w + k))"
  proof (intro allI impI)
    fix k assume "k < n"
    then have "Suc k < Suc n" by simp
    with Suc.prems(2) have "pending (net (statusCalls w + Suc k))" by blast
    then show "pending (net (statusCalls ?w + k))" by simp
  qed
  moreover from Suc.prems have "Suc a + n \<le> maxAttempts" by simp
  ultimately have "pollLoop net vid (Suc a) ?w = pollLoop net vid (Suc a + n) (rounds net (Suc a) n ?w)"
    by (rule Suc.IH[rotated])
  with pollLoop_pending[of a net w vid, OF a p0] show ?case by simp
qed

lemma statusCalls_rounds [simp]: "statusCalls (rounds net a n w) = statusCalls w + n"
  by (induction n arbitrary: a w) simp_all

lemma waited_rounds [simp]: "waited (rounds net a n w) = waited w + 3000 * n"
  by (induction n arbitrary: a w) (simp_all add: effect_defs)

lemma progressCalls_rounds:
  "progressCalls (rounds net a n w) =
     progressCalls w @ map (\<lambda>k. min (30 + int k * 2) 90) [a..<a + n]"
proof (induction n arbitrary: a w)
  case 0
  show ?case by simp
next
  case (Suc n)
  have "[a..<a + Suc n] = a # [Suc a..<Suc a + n]" by (simp add: upt_rec)
  then show ?case by (simp add: Suc.IH)
qed

lemma poll_reaches:
  assumes "n < maxAttempts" and "\<forall>k<n. pending (net (statusCalls w + k))"
  shows "pollVideoStatus net vid w = pollLoop net vid n (rounds net 0 n w)"
  using pollLoop_rounds[of 0 n net w vid] assms by (simp add: pollVideoStatus_def)

lemma poll_progress_general:
  "a \<le> maxAttempts \<Longrightarrow> \<exists>n. a + n \<le> maxAttempts \<and>
     progressCalls (pollLoop net vid a w) =
       progressCalls w @ map (\<lambda>k. min (30 + int k * 2) 90) [a..<a + n]"
proof (induction a w rule: pollLoop_cases[where net = net])
  case (terminal a w)
  from pollLoop_terminal[of a net w vid, OF terminal(1)]
  have "progressCalls (pollLoop net vid a w) = progressCalls w" by auto
  with terminal(2) have "a + 0 \<le> maxAttempts \<and> progressCalls (pollLoop net vid a w) =
       progressCalls w @ map (\<lambda>k. min (30 + int k * 2) 90) [a..<a + 0]"
    by simp
  then show ?case by blast
next
  case (round a w)
  let ?w = "waitRound (label (net (statusCalls w))) a w"
  from round obtain n where n: "Suc a + n \<le> maxAttempts"
    "progressCalls (pollLoop net vid (Suc a) ?w) =
       progressCalls ?w @ map (\<lambda>k. min (30 + int k * 2) 90) [Suc a..<Suc a + n]"
    by auto
  have "[a..<a + Suc n] = a # [Suc a..<Suc a + n]" by (simp add: upt_rec)
  with n have "a + Suc n \<le> maxAttempts \<and> progressCalls (pollLoop net vid a w) =
       progressCalls w @ map (\<lambda>k. min (30 + int k * 2) 90) [a..<a + Suc n]"
    using pollLoop_pending[of a net w vid, OF round(1,2)] by simp
  then show ?case by blast
qed

lemma pollLoop_stops:
  "a < maxAttempts \<Longrightarrow> \<not> pending (net (statusCalls w)) \<Longrightarrow>
   statusCalls (pollLoop net vid a w) = Suc (statusCalls w)"
  using pollLoop_terminal[of a net w vid] by auto

subsection \<open>Frame properties of the loop\<close>

lemma pollLoop_generateCalls [simp]: "generateCalls (pollLoop net vid a w) = generateCalls w"
proof (induction a w rule: pollLoop_cases[where net = net])
  case (terminal a w)
  from pollLoop_terminal[of a net w vid, OF terminal] show ?case
    by (auto simp: effect_defs)
next
  case (round a w)
  then show ?case using pollLoop_pending[of a net w vid] by (simp add: effect_defs)
qed

lemma pollLoop_prompt [simp]: "prompt (pollLoop net vid a w) = prompt w"
proof (induction a w rule: pollLoop_cases[where net = net])
  case (terminal a w)
  from pollLoop_terminal[of a net w vid, OF terminal] show ?case
    by (auto simp: effect_defs)
next
  case (round a w)
  then show ?case using pollLoop_pending[of a net w vid] by (simp add: effect_defs)
qed

lemma pollLoop_logs: "\<exists>ls. logs (pollLoop net vid a w) = ls @ logs w"
proof (induction a w rule: pollLoop_cases[where net = net])
  case (terminal a w)
  from pollLoop_terminal[of a net w vid, OF terminal] show ?case
    by (auto simp: effect_defs)
next
  case (round a w)
  then show ?case using pollLoop_pending[of a net w vid] by (auto simp add: effect_defs)
qed

lemma pollLoop_history: "\<exists>us. history (pollLoop net vid a w) = history w @ us"
proof (induction a w rule: pollLoop_cases[where net = net])
  case (terminal a w)
  from pollLoop_terminal[of a net w vid, OF terminal] show ?case
    by (auto simp: effect_defs)
next
  case (round a w)
  then show ?case using pollLoop_pending[of a net w vid] by (auto simp add: effect_defs)
qed

lemma pollLoop_handles: "all_handles_ok w \<Longrightarrow> all_handles_ok (pollLoop net vid a w)"
proof (induction a w rule: pollLoop_cases[where net = net])
  case (terminal a w)
  from pollLoop_terminal[of a net w vid, OF terminal(1)] terminal(2) show ?case
    by (auto simp: all_handles_ok_def handle_ok_def effect_defs)
next
  case (round a w)
  from round(4) have "all_handles_ok (waitRound (label (net (statusCalls w))) a w)"
    by (simp add: all_handles_ok_def handle_ok_def effect_defs)
  then show ?case using round(3) pollLoop_pending[of a net w vid, OF round(1,2)] by simp
qed


section \<open>The branches of \<^verbatim>\<open>generateVideo\<close>\<close>

lemma generateVideo_rejected:
  "rejected (prompt w) \<Longrightarrow> \<exists>m. generateVideo gen net w = addLog Error m w"
  by (auto simp: rejected_def generateVideo_def)

lemma generateVideo_threw:
  "\<not> rejected (prompt w) \<Longrightarrow> gen = Threw e \<Longrightarrow>
   generateVideo gen net w = generateCatch e (sending w)"
  by (simp add: rejected_def generateVideo_def sending_def addLog_def setVideoStatus_def Let_def)

lemma generateVideo_refused:
  "\<not> rejected (prompt w) \<Longrightarrow> gen = Reply g \<Longrightarrow> \<not> gen_ok g \<or> \<not> truthy (video_id g) \<Longrightarrow>
   generateVideo gen net w =
     generateCatch (ErrorObj (or_else (gen_error_message g) ''Failed to generate video''))
       (sending w)"
  by (auto simp add: rejected_def generateVideo_def sending_def addLog_def setVideoStatus_def
        Let_def)

lemma generateVideo_started:
  "\<not> rejected (prompt w) \<Longrightarrow> gen = Reply g \<Longrightarrow> gen_ok g \<Longrightarrow> truthy (video_id g) \<Longrightarrow>
   generateVideo gen net w = pollVideoStatus net (the (video_id g)) (started (the (video_id g)) w)"
  by (simp add: rejected_def generateVideo_def sending_def started_def addLog_def
        setVideoStatus_def Let_def)

lemma generateVideo_cases:
  obtains (rejected) m where "rejected (prompt w)" "generateVideo gen net w = addLog Error m w"
  | (failed) e where "\<not> rejected (prompt w)"
      "generateVideo gen net w = generateCatch e (sending w)"
  | (polled) vid where "\<not> rejected (prompt w)"
      "generateVideo gen net w = pollVideoStatus net vid (started vid w)"
proof (cases "rejected (prompt w)")
  case True
  with generateVideo_rejected[of w gen net] that(1) show ?thesis by blast
next
  case False
  show ?thesis
  proof (cases gen)
    case (Threw e)
    with False that(2) generateVideo_threw[of w gen e net] show ?thesis by blast
  next
    case (Reply g)
    show ?thesis
    proof (cases "gen_ok g \<and> truthy (video_id g)")
      case True
      with False Reply that(3) generateVideo_started[of w gen g net] show ?thesis by blast
    next
      case no: False
      with False Reply that(2) generateVideo_refused[of w gen g net] show ?thesis by blast
    qed
  qed
qed

lemma generateVideo_handles: "all_handles_ok w \<Longrightarrow> all_handles_ok (generateVideo gen net w)"
proof (cases rule: generateVideo_cases[where w = w and gen = gen and net = net])
  case (rejected m)
  assume "all_handles_ok w"
  with rejected show ?thesis by (simp add: all_handles_ok_def addLog_def)
next
  case (failed e)
  assume "all_handles_ok w"
  with failed show ?thesis
    by (simp add: all_handles_ok_def handle_ok_def generateCatch_def sending_def
          addLog_def setVideoStatus_def Let_def)
next
  case (polled vid)
  assume "all_handles_ok w"
  then have "all_handles_ok (started vid w)"
    by (simp add: all_handles_ok_def handle_ok_def started_def sending_def
          addLog_def setVideoStatus_def)
  with polled show ?thesis by (simp add: pollVideoStatus_def pollLoop_handles)
qed

lemma generateVideo_logs: "\<exists>ls. logs (generateVideo gen net w) = ls @ logs w"
proof (cases rule: generateVideo_cases[where w = w and gen = gen and net = net])
  case (rejected m)
  then show ?thesis by (simp add: addLog_def)
next
  case (failed e)
  then show ?thesis
    by (simp add: generateCatch_def sending_def addLog_def setVideoStatus_def Let_def)
next
  case (polled vid)
  obtain ls where "logs (pollLoop net vid 0 (started vid w)) = ls @ logs (started vid w)"
    using pollLoop_logs by blast
  with polled show ?thesis
    by (simp add: pollVideoStatus_def started_def sending_def addLog_def setVideoStatus_def)
qed

lemma generateVideo_prompt [simp]: "prompt (generateVideo gen net w) = prompt w"
proof (cases rule: generateVideo_cases[where w = w and gen = gen and net = net])
  case (rejected m)
  then show ?thesis by (simp add: addLog_def)
next
  case (failed e)
  then show ?thesis
    by (simp add: generateCatch_def sending_def addLog_def setVideoStatus_def Let_def)
next
  case (polled vid)
  then show ?thesis
    by (simp add: pollVideoStatus_def started_def sending_def addLog_def setVideoStatus_def)
qed

subsection \<open>Evaluating the handlers on the sample answers\<close>

lemma defaultPrompt_accepted: "\<not> rejected defaultPrompt"
  by (simp add: rejected_def defaultPrompt_def utf16_def trim_def isWhiteSpace_def)

lemmas run_defs = generateVideo_def pollVideoStatus_def pollLoop.simps maxAttempts_def
  generateCatch_def effect_defs sample_defs initial_def idleStatus_def or_else_def js_or_def

section \<open>Properties\<close>

text \<open>
  C1. The progress updater of \<^verbatim>\<open>pollVideoStatus\<close> is the progress callback. In every
  polling run it is called with \<open>min (30 + a * 2) 90\<close> on attempt \<open>a\<close>, counted from 0,
  for the first \<open>m\<close> attempts and some \<open>m\<close> of at most 100, so the displayed value
  never passes 90 before a terminal state. When the remote side answers with \<open>n\<close>
  non-terminal states and then \<^verbatim>\<open>"completed"\<close> with a result URL, the calls are exactly
  those of the attempts \<open>0, ..., n - 1\<close>, and the run ends in the completed status with
  progress 100 and that URL. For \<open>n = 5\<close> the percentages are 30, 32, 34, 36, 38.
\<close>

theorem poll_progress_sequence:
  "(\<exists>m\<le>maxAttempts. progressCalls (pollVideoStatus net vid w) =
       progressCalls w @ map (\<lambda>a. min (30 + int a * 2) 90) [0..<m])
   \<and> (n < maxAttempts \<and> (\<forall>k<n. pending (net (statusCalls w + k)))
        \<and> net (statusCalls w + n) = Reply r \<and> ok r
        \<and> data_status r = Some ''completed''
        \<and> truthy (js_or (video_url r) (output_video_url r))
      \<longrightarrow> progressCalls (pollVideoStatus net vid w) =
            progressCalls w @ map (\<lambda>a. min (30 + int a * 2) 90) [0..<n]
          \<and> videoStatus (pollVideoStatus net vid w) =
              \<lparr>status = Completed, videoId = Some vid,
               videoUrl = js_or (video_url r) (output_video_url r),
               progress = 100, error = None\<rparr>)"
proof (intro conjI impI)
  show "\<exists>m\<le>maxAttempts. progressCalls (pollVideoStatus net vid w) =
       progressCalls w @ map (\<lambda>a. min (30 + int a * 2) 90) [0..<m]"
    using poll_progress_general[of 0 net vid w] by (simp add: pollVideoStatus_def)
next
  assume h: "n < maxAttempts \<and> (\<forall>k<n. pending (net (statusCalls w + k)))
        \<and> net (statusCalls w + n) = Reply r \<and> ok r
        \<and> data_status r = Some ''completed''
        \<and> truthy (js_or (video_url r) (output_video_url r))"
  let ?w = "rounds net 0 n w"
  from h have 1: "n < maxAttempts" and 2: "\<forall>k<n. pending (net (statusCalls w + k))"
    by simp_all
  from h have "net (statusCalls ?w) = Reply r" by simp
  note pollLoop_completed[of n net ?w r vid, OF 1 this]
  with h have e: "pollVideoStatus net vid w =
     addLog Success ''Video generation completed successfully!''
          (setVideoStatus \<lparr>status = Completed, videoId = Some vid,
             videoUrl = js_or (video_url r) (output_video_url r), progress = 100,
             error = None\<rparr> (asked n ?w))"
    using poll_reaches[OF 1 2, of vid] by simp
  show "progressCalls (pollVideoStatus net vid w) =
            progressCalls w @ map (\<lambda>a. min (30 + int a * 2) 90) [0..<n]"
    by (simp add: e progressCalls_rounds)
  show "videoStatus (pollVideoStatus net vid w) =
              \<lparr>status = Completed, videoId = Some vid,
               videoUrl = js_or (video_url r) (output_video_url r),
               progress = 100, error = None\<rparr>"
    by (simp add: e)
qed

theorem poll_progress_sequence_witness:
  "progressCalls (pollVideoStatus (thenAnswer 5 (Reply completedReply)) ''v1'' initial) =
     [30, 32, 34, 36, 38]
   \<and> videoStatus (pollVideoStatus (thenAnswer 5 (Reply completedReply)) ''v1'' initial) =
       \<lparr>status = Completed, videoId = Some ''v1'',
        videoUrl = Some ''https://files.example/v1.mp4'', progress = 100, error = None\<rparr>
   \<and> progressCalls (pollVideoStatus (thenAnswer 40 (Reply completedReply)) ''v1'' initial)
       ! 39 = 90"
proof -
  have "progressCalls (pollVideoStatus (thenAnswer 40 (Reply completedReply)) ''v1'' initial) =
      map (\<lambda>a. min (30 + int a * 2) 90) [0..<40]"
    using poll_progress_sequence
      [of "thenAnswer 40 (Reply completedReply)" "''v1''" initial 40 completedReply]
    by (simp add: sample_defs initial_def pending_def maxAttempts_def js_or_def)
  then have "progressCalls (pollVideoStatus (thenAnswer 40 (Reply completedReply)) ''v1'' initial)
       ! 39 = 90"
    by simp
  then show ?thesis
    using poll_progress_sequence
      [of "thenAnswer 5 (Reply completedReply)" "''v1''" initial 5 completedReply]
    by (simp add: sample_defs initial_def pending_def maxAttempts_def js_or_def upt_rec)
qed




text \<open>
  C3 as stated does not hold: a failure after the job was accepted stores a status
  record without the job handle. Here the job is accepted with the handle \<^verbatim>\<open>v1\<close> and the
  first status request reports \<^verbatim>\<open>"failed"\<close>: the processing status held the handle, the
  failed status that follows does not.
\<close>

theorem handle_absent_after_remote_failure:
  "map status (history (generateVideo accepted (thenAnswer 0 (Reply failedReply)) initial)) =
     [Generating, Processing, Failed]
   \<and> map videoId (history (generateVideo accepted (thenAnswer 0 (Reply failedReply)) initial)) =
     [None, Some ''v1'', None]
   \<and> status (videoStatus (generateVideo accepted (thenAnswer 0 (Reply failedReply)) initial)) =
     Failed
   \<and> videoId (videoStatus (generateVideo accepted (thenAnswer 0 (Reply failedReply)) initial)) =
     None"
  by (simp add: run_defs defaultPrompt_def utf16_def trim_def isWhiteSpace_def)

text \<open>
  C3, amended. In every reachable workflow state, and in every status record stored on
  the way to it, the job handle \<^verbatim>\<open>videoId\<close> is present if and only if the status is
  processing or completed; it is absent in the idle and generating statuses and in
  every failed status.
\<close>

theorem handle_present_iff_processing_or_completed:
  "reachable w \<Longrightarrow>
     handle_ok (videoStatus w) \<and> (\<forall>v \<in> set (history w). handle_ok v)"
proof -
  assume "reachable w"
  then have "all_handles_ok w"
  proof (induction rule: reachable.induct)
    case mounted
    show ?case by (simp add: all_handles_ok_def handle_ok_def initial_def idleStatus_def)
  next
    case (typed w p)
    then show ?case by (simp add: all_handles_ok_def setPrompt_def)
  next
    case (generated w gen net)
    from generated.IH show ?case by (rule generateVideo_handles)
  next
    case (downloaded w fetched)
    then show ?case by (simp add: all_handles_ok_def downloadVideo_def addLog_def Let_def)
  next
    case (cleared w)
    then show ?case
      by (simp add: all_handles_ok_def handle_ok_def resetGenerator_def setVideoStatus_def
            idleStatus_def)
  qed
  then show ?thesis by (simp add: all_handles_ok_def list_all_iff)
qed

theorem handle_present_iff_processing_or_completed_witness:
  "reachable (generateVideo accepted (thenAnswer 1 (Reply completedReply)) initial)
   \<and> handle_ok (videoStatus (generateVideo accepted (thenAnswer 1 (Reply completedReply)) initial))
   \<and> list_all handle_ok
       (history (generateVideo accepted (thenAnswer 1 (Reply completedReply)) initial))
   \<and> videoId (videoStatus (generateVideo accepted (thenAnswer 1 (Reply completedReply)) initial))
       = Some ''v1''"
proof -
  have r: "reachable (generateVideo accepted (thenAnswer 1 (Reply completedReply)) initial)"
    by (intro reachable.intros)
  have "videoId (videoStatus (generateVideo accepted (thenAnswer 1 (Reply completedReply)) initial))
       = Some ''v1''"
    by (simp add: run_defs defaultPrompt_def utf16_def trim_def isWhiteSpace_def)
  with r handle_present_iff_processing_or_completed[OF r] show ?thesis
    by (simp add: list_all_iff)
qed

text \<open>
  C4. When each of the first 100 status requests goes through and reports a state that
  is neither \<^verbatim>\<open>"completed"\<close> nor \<^verbatim>\<open>"failed"\<close>, \<^verbatim>\<open>pollVideoStatus\<close> sends exactly 100
  requests, waits 3000 ms after each of them, and leaves the failed status with the
  message \<^verbatim>\<open>Video generation timed out\<close>.
\<close>

theorem poll_times_out:
  assumes "\<forall>k<maxAttempts. pending (net (statusCalls w + k))"
  shows "statusCalls (pollVideoStatus net vid w) = statusCalls w + 100
    \<and> videoStatus (pollVideoStatus net vid w) =
        \<lparr>status = Failed, videoId = None, videoUrl = None, progress = 0,
         error = Some ''Video generation timed out''\<rparr>
    \<and> waited (pollVideoStatus net vid w) = waited w + 100 * 3000"
proof -
  have "pollLoop net vid 0 w = pollLoop net vid (0 + maxAttempts) (rounds net 0 maxAttempts w)"
    using assms by (intro pollLoop_rounds) simp_all
  then have "pollVideoStatus net vid w = pollTimeout (rounds net 0 maxAttempts w)"
    by (simp add: pollVideoStatus_def pollLoop_exhausted)
  then show ?thesis by (simp add: maxAttempts_def)
qed

theorem poll_times_out_witness:
  "statusCalls (pollVideoStatus alwaysProcessing ''v1'' initial) = 100
   \<and> status (videoStatus (pollVideoStatus alwaysProcessing ''v1'' initial)) = Failed
   \<and> error (videoStatus (pollVideoStatus alwaysProcessing ''v1'' initial)) =
        Some ''Video generation timed out''
   \<and> waited (pollVideoStatus alwaysProcessing ''v1'' initial) = 300000"
  using poll_times_out[of alwaysProcessing initial "''v1''"]
  by (simp add: sample_defs initial_def pending_def)

text \<open>
  C5. \<^verbatim>\<open>generateVideo\<close> sends no request at all, and leaves the status untouched, exactly
  for the prompts whose trimmed form is empty or whose length \<^verbatim>\<open>prompt.length\<close> exceeds
  1500; for every other prompt, that is, one with a non-empty trimmed form and a length
  of at most 1500, it posts one request carrying the prompt to \<^verbatim>\<open>/api/generate\<close>.
\<close>

theorem submit_rejects_exactly:
  "generateCalls (generateVideo gen net w) =
     (if trim (prompt w) = [] \<or> 1500 < length (prompt w) then generateCalls w
      else generateCalls w @ [prompt w])
   \<and> (trim (prompt w) = [] \<or> 1500 < length (prompt w) \<longrightarrow>
        statusCalls (generateVideo gen net w) = statusCalls w
        \<and> videoStatus (generateVideo gen net w) = videoStatus w
        \<and> history (generateVideo gen net w) = history w)"
proof (cases rule: generateVideo_cases[where w = w and gen = gen and net = net])
  case (rejected m)
  then show ?thesis by (simp add: rejected_def addLog_def)
next
  case (failed e)
  then show ?thesis
    by (simp add: rejected_def generateCatch_def sending_def addLog_def setVideoStatus_def Let_def)
next
  case (polled vid)
  then show ?thesis
    by (simp add: rejected_def pollVideoStatus_def started_def sending_def addLog_def
          setVideoStatus_def)
qed

theorem submit_rejects_exactly_witness:
  "generateCalls (generateVideo accepted alwaysProcessing
      (setPrompt [0x0020, 0x0009, 0x3000] initial)) = []
   \<and> statusCalls (generateVideo accepted alwaysProcessing
      (setPrompt [0x0020, 0x0009, 0x3000] initial)) = 0
   \<and> generateCalls (generateVideo accepted alwaysProcessing
      (setPrompt (replicate 1400 0x0061 @ replicate 101 0x0020) initial)) = []
   \<and> generateCalls (generateVideo accepted alwaysProcessing
      (setPrompt (replicate 1500 0x0061) initial)) = [replicate 1500 0x0061]"
  using submit_rejects_exactly
      [of accepted alwaysProcessing "setPrompt [0x0020, 0x0009, 0x3000] initial"]
    submit_rejects_exactly
      [of accepted alwaysProcessing
          "setPrompt (replicate 1400 0x0061 @ replicate 101 0x0020) initial"]
    submit_rejects_exactly
      [of accepted alwaysProcessing "setPrompt (replicate 1500 0x0061) initial"]
  by (simp add: setPrompt_def initial_def trim_def isWhiteSpace_def)

text \<open>
  C6. When a status request, after \<open>n\<close> non-terminal ones, reports the state
  \<^verbatim>\<open>"failed"\<close>, \<^verbatim>\<open>pollVideoStatus\<close> ends there: the status becomes failed with the reason
  the remote side supplied when there is a non-empty one, and with
  \<^verbatim>\<open>Video generation failed\<close> otherwise, and the request that observed the failure is
  the last one sent.
\<close>

theorem poll_remote_failure:
  assumes "n < maxAttempts" and "\<forall>k<n. pending (net (statusCalls w + k))"
    and "net (statusCalls w + n) = Reply r" and "ok r" and "data_status r = Some ''failed''"
  shows "videoStatus (pollVideoStatus net vid w) =
        \<lparr>status = Failed, videoId = None, videoUrl = None, progress = 0,
         error = Some (or_else (data_error_message r) ''Video generation failed'')\<rparr>
    \<and> statusCalls (pollVideoStatus net vid w) = statusCalls w + n + 1"
proof -
  let ?w = "rounds net 0 n w"
  have "net (statusCalls ?w) = Reply r" using assms(3) by simp
  note pollLoop_failed[of n net ?w r vid, OF assms(1) this assms(4,5)]
  then show ?thesis using poll_reaches[OF assms(1,2), of vid] by simp
qed

theorem poll_remote_failure_witness:
  "error (videoStatus (pollVideoStatus (thenAnswer 0 (Reply failedReply)) ''v1'' initial)) =
     Some ''synthesis error''
   \<and> statusCalls (pollVideoStatus (thenAnswer 0 (Reply failedReply)) ''v1'' initial) = 1
   \<and> error (videoStatus (pollVideoStatus (thenAnswer 3 (Reply silentFailedReply)) ''v1'' initial)) =
     Some ''Video generation failed''
   \<and> statusCalls (pollVideoStatus (thenAnswer 3 (Reply silentFailedReply)) ''v1'' initial) = 4"
  using poll_remote_failure[of 0 "thenAnswer 0 (Reply failedReply)" initial failedReply "''v1''"]
    poll_remote_failure
      [of 3 "thenAnswer 3 (Reply silentFailedReply)" initial silentFailedReply "''v1''"]
  by (simp add: sample_defs initial_def pending_def maxAttempts_def or_else_def)

text \<open>
  C7. When a status request, after \<open>n\<close> non-terminal ones, reports \<^verbatim>\<open>"completed"\<close>, the
  result URL is the primary field \<^verbatim>\<open>data.video_url\<close> when that is a non-empty string,
  and the nested field \<^verbatim>\<open>data.output.video_url\<close> when the primary one is missing (or
  empty) and the nested one is a non-empty string; in both cases the run ends in the
  completed status with that URL. When neither field holds a URL the run ends in the
  failed status with the message \<^verbatim>\<open>Video URL not found in response\<close>.
\<close>

theorem poll_completed_url:
  assumes "n < maxAttempts" and "\<forall>k<n. pending (net (statusCalls w + k))"
    and "net (statusCalls w + n) = Reply r" and "ok r" and "data_status r = Some ''completed''"
  shows "(truthy (video_url r) \<longrightarrow>
            videoStatus (pollVideoStatus net vid w) =
              \<lparr>status = Completed, videoId = Some vid, videoUrl = video_url r,
               progress = 100, error = None\<rparr>)
    \<and> (\<not> truthy (video_url r) \<and> truthy (output_video_url r) \<longrightarrow>
            videoStatus (pollVideoStatus net vid w) =
              \<lparr>status = Completed, videoId = Some vid, videoUrl = output_video_url r,
               progress = 100, error = None\<rparr>)
    \<and> (\<not> truthy (video_url r) \<and> \<not> truthy (output_video_url r) \<longrightarrow>
            videoStatus (pollVideoStatus net vid w) =
              \<lparr>status = Failed, videoId = None, videoUrl = None, progress = 0,
               error = Some ''Video URL not found in response''\<rparr>)"
proof -
  let ?w = "rounds net 0 n w"
  have "net (statusCalls ?w) = Reply r" using assms(3) by simp
  note pollLoop_completed[of n net ?w r vid, OF assms(1) this assms(4,5)]
  then show ?thesis using poll_reaches[OF assms(1,2), of vid] by (simp add: js_or_def)
qed

theorem poll_completed_url_witness:
  "videoStatus (pollVideoStatus (thenAnswer 1 (Reply completedReply)) ''v1'' initial) =
     \<lparr>status = Completed, videoId = Some ''v1'',
      videoUrl = Some ''https://files.example/v1.mp4'', progress = 100, error = None\<rparr>
   \<and> videoStatus (pollVideoStatus (thenAnswer 1 (Reply nestedUrlReply)) ''v1'' initial) =
     \<lparr>status = Completed, videoId = Some ''v1'',
      videoUrl = Some ''https://files.example/nested.mp4'', progress = 100, error = None\<rparr>
   \<and> videoStatus (pollVideoStatus (thenAnswer 1 (Reply noUrlReply)) ''v1'' initial) =
     \<lparr>status = Failed, videoId = None, videoUrl = None, progress = 0,
      error = Some ''Video URL not found in response''\<rparr>"
  using poll_completed_url
      [of 1 "thenAnswer 1 (Reply completedReply)" initial completedReply "''v1''"]
    poll_completed_url
      [of 1 "thenAnswer 1 (Reply nestedUrlReply)" initial nestedUrlReply "''v1''"]
    poll_completed_url
      [of 1 "thenAnswer 1 (Reply noUrlReply)" initial noUrlReply "''v1''"]
  by (simp add: sample_defs initial_def pending_def maxAttempts_def)

text \<open>
  C8. When a status request, after \<open>n\<close> non-terminal ones, fails in transport (the
  \<^verbatim>\<open>fetch\<close> or the parsing throws) or comes back with a non-success code,
  \<^verbatim>\<open>pollVideoStatus\<close> ends there in the failed status, with the message of the error
  thrown, resp. the message of the error body or \<^verbatim>\<open>Failed to check status\<close>, and the
  failed request is the last one sent. In general the request that gets anything but a
  non-terminal answer is the last one: only such an answer leads to another request.
\<close>

theorem poll_check_failed:
  assumes "n < maxAttempts" and "\<forall>k<n. pending (net (statusCalls w + k))"
  shows "(net (statusCalls w + n) = Threw e \<or> (net (statusCalls w + n) = Reply r \<and> \<not> ok r)
      \<longrightarrow> videoStatus (pollVideoStatus net vid w) =
            \<lparr>status = Failed, videoId = None, videoUrl = None, progress = 0,
             error = Some (case net (statusCalls w + n) of
                             Threw (ErrorObj m) \<Rightarrow> m
                           | Threw NonError \<Rightarrow> ''Status check failed''
                           | Reply r \<Rightarrow> or_else (error_message r) ''Failed to check status'')\<rparr>)
    \<and> (\<not> pending (net (statusCalls w + n))
      \<longrightarrow> statusCalls (pollVideoStatus net vid w) = statusCalls w + n + 1)"
proof (intro conjI impI)
  let ?w = "rounds net 0 n w"
  assume "\<not> pending (net (statusCalls w + n))"
  then have "\<not> pending (net (statusCalls ?w))" by simp
  with assms(1) have "statusCalls (pollLoop net vid n ?w) = Suc (statusCalls ?w)"
    by (rule pollLoop_stops)
  then show "statusCalls (pollVideoStatus net vid w) = statusCalls w + n + 1"
    using poll_reaches[OF assms(1,2), of vid] by simp
next
  let ?w = "rounds net 0 n w"
  let ?goal = "videoStatus (pollVideoStatus net vid w) =
            \<lparr>status = Failed, videoId = None, videoUrl = None, progress = 0,
             error = Some (case net (statusCalls w + n) of
                             Threw (ErrorObj m) \<Rightarrow> m
                           | Threw NonError \<Rightarrow> ''Status check failed''
                           | Reply r \<Rightarrow> or_else (error_message r) ''Failed to check status'')\<rparr>"
  assume "net (statusCalls w + n) = Threw e \<or> (net (statusCalls w + n) = Reply r \<and> \<not> ok r)"
  then show ?goal
  proof
    assume t: "net (statusCalls w + n) = Threw e"
    then have "net (statusCalls ?w) = Threw e" by simp
    with assms(1) have "pollLoop net vid n ?w = pollCatch e (asked n ?w)"
      by (rule pollLoop_threw)
    then show ?goal using poll_reaches[OF assms(1,2), of vid] t
      by (simp split: thrown.splits)
  next
    assume t: "net (statusCalls w + n) = Reply r \<and> \<not> ok r"
    then have "net (statusCalls ?w) = Reply r" by simp
    with assms(1) have "pollLoop net vid n ?w =
        pollCatch (ErrorObj (or_else (error_message r) ''Failed to check status'')) (asked n ?w)"
      using t by (intro pollLoop_not_ok) simp_all
    then show ?goal using poll_reaches[OF assms(1,2), of vid] t by simp
  qed
qed

theorem poll_check_failed_witness:
  "error (videoStatus (pollVideoStatus (thenAnswer 2 (Threw (ErrorObj ''Failed to fetch'')))
      ''v1'' initial)) = Some ''Failed to fetch''
   \<and> statusCalls (pollVideoStatus (thenAnswer 2 (Threw (ErrorObj ''Failed to fetch'')))
      ''v1'' initial) = 3
   \<and> error (videoStatus (pollVideoStatus (thenAnswer 2 (Reply serverErrorReply))
      ''v1'' initial)) = Some ''HeyGen API key not configured''
   \<and> statusCalls (pollVideoStatus (thenAnswer 2 (Reply serverErrorReply)) ''v1'' initial) = 3"
  using poll_check_failed
      [of 2 "thenAnswer 2 (Threw (ErrorObj ''Failed to fetch''))" initial
          "ErrorObj ''Failed to fetch''" serverErrorReply "''v1''"]
    poll_check_failed
      [of 2 "thenAnswer 2 (Reply serverErrorReply)" initial
          "ErrorObj ''Failed to fetch''" serverErrorReply "''v1''"]
  by (simp add: sample_defs initial_def pending_def maxAttempts_def or_else_def)

text \<open>
  C9. From every workflow state, completed and failed ones included, \<^verbatim>\<open>resetGenerator\<close>
  yields the idle status with progress 0, no job handle, no result URL and no error,
  and an empty log list, whatever the state held before.
\<close>

theorem reset_yields_idle:
  "videoStatus (resetGenerator w) =
     \<lparr>status = Idle, videoId = None, videoUrl = None, progress = 0, error = None\<rparr>
   \<and> logs (resetGenerator w) = []"
  by (simp add: resetGenerator_def setVideoStatus_def idleStatus_def)

text \<open>
  C10. With a prompt that passes the two guards, the first thing \<^verbatim>\<open>generateVideo\<close> stores
  is the status record \<^verbatim>\<open>{ status: "generating", progress: 10 }\<close>, whatever job handle,
  result URL or error the previous record held. The log list is never cleared by it:
  the list after the run is the list before it with new entries in front.
\<close>

theorem generate_replaces_status_keeps_logs:
  "(trim (prompt w) \<noteq> [] \<and> length (prompt w) \<le> 1500 \<longrightarrow>
      (\<exists>us. history (generateVideo gen net w) =
         history w @ \<lparr>status = Generating, videoId = None, videoUrl = None,
                       progress = 10, error = None\<rparr> # us))
   \<and> (\<exists>ls. logs (generateVideo gen net w) = ls @ logs w)"
proof (intro conjI impI)
  show "\<exists>ls. logs (generateVideo gen net w) = ls @ logs w" by (rule generateVideo_logs)
next
  assume "trim (prompt w) \<noteq> [] \<and> length (prompt w) \<le> 1500"
  then have valid: "\<not> rejected (prompt w)" by (simp add: rejected_def)
  show "\<exists>us. history (generateVideo gen net w) =
         history w @ \<lparr>status = Generating, videoId = None, videoUrl = None,
                       progress = 10, error = None\<rparr> # us"
  proof (cases rule: generateVideo_cases[where w = w and gen = gen and net = net])
    case (rejected m)
    with valid show ?thesis by simp
  next
    case (failed e)
    then show ?thesis
      by (simp add: generateCatch_def sending_def addLog_def setVideoStatus_def Let_def)
  next
    case (polled vid)
    obtain us where "history (pollLoop net vid 0 (started vid w)) = history (started vid w) @ us"
      using pollLoop_history by blast
    with polled show ?thesis
      by (simp add: pollVideoStatus_def started_def sending_def addLog_def setVideoStatus_def)
  qed
qed

theorem generate_replaces_status_keeps_logs_witness:
  "videoStatus (generateVideo accepted (thenAnswer 0 (Reply completedReply)) initial) =
     \<lparr>status = Completed, videoId = Some ''v1'',
      videoUrl = Some ''https://files.example/v1.mp4'', progress = 100, error = None\<rparr>
   \<and> (\<exists>us. history (generateVideo (Threw NonError) alwaysProcessing
              (generateVideo accepted (thenAnswer 0 (Reply completedReply)) initial)) =
         history (generateVideo accepted (thenAnswer 0 (Reply completedReply)) initial)
         @ \<lparr>status = Generating, videoId = None, videoUrl = None, progress = 10,
             error = None\<rparr> # us)
   \<and> (\<exists>ls. logs (generateVideo (Threw NonError) alwaysProcessing
              (generateVideo accepted (thenAnswer 0 (Reply completedReply)) initial)) =
         ls @ logs (generateVideo accepted (thenAnswer 0 (Reply completedReply)) initial))"
proof -
  let ?w = "generateVideo accepted (thenAnswer 0 (Reply completedReply)) initial"
  have p: "prompt ?w = defaultPrompt" by (simp add: initial_def)
  have v: "trim (prompt ?w) \<noteq> [] \<and> length (prompt ?w) \<le> 1500"
    using defaultPrompt_accepted unfolding p by (simp add: rejected_def)
  have "videoStatus ?w =
     \<lparr>status = Completed, videoId = Some ''v1'',
      videoUrl = Some ''https://files.example/v1.mp4'', progress = 100, error = None\<rparr>"
    by (simp add: run_defs defaultPrompt_def utf16_def trim_def isWhiteSpace_def)
  with v show ?thesis
    using generate_replaces_status_keeps_logs[of ?w "Threw NonError" alwaysProcessing]
    by simp
qed

end
